theory Spec2Isabelle
  imports Complex_Main "HOL-Library.Product_Lexorder" "HOL-Library.Multiset"
begin

section \<open>Data model (models.py)\<close>

text \<open>
  Python \<open>date\<close> values are modelled by their day ordinal and \<open>datetime\<close> values
  (one instant each, the column is \<open>DateTime(timezone=True)\<close>) by a count of
  microseconds; only their order is used. \<open>Float\<close> prices are modelled by the real
  numbers they denote: the code only compares them, and comparison of finite floats
  is exact.
\<close>

type_synonym date = int
type_synonym datetime = int

record user =
  u_id :: int
  u_name :: string
  u_surname :: string
  u_email :: string

record freight =
  f_id :: int
  f_price :: real
  f_pickup_code :: int
  f_delivery_code :: int
  f_pickup_date :: date
  f_delivery_date :: date

text \<open>Nullable columns are \<open>option\<close> values, \<open>None\<close> being SQL NULL.\<close>

record freight_search =
  fs_id :: int
  fs_user_id :: int
  fs_min_price :: "real option"
  fs_max_price :: "real option"
  fs_pickup_code :: "int option"
  fs_delivery_code :: "int option"
  fs_pickup_date_from :: "date option"
  fs_pickup_date_to :: "date option"
  fs_delivery_date_from :: "date option"
  fs_delivery_date_to :: "date option"
  fs_created_at :: datetime

text \<open>The database: one list of rows per table, in no particular order.\<close>

record store =
  users :: "user list"
  freights :: "freight list"
  freight_searches :: "freight_search list"

text \<open>
  The answers of a request that fails: an \<open>HTTPException\<close> raised by a handler (404), a
  request refused by validation (422), and an exception of the storage layer that no
  handler catches (500).
\<close>

datatype error =
  HTTPException int string
| RequestValidationError "string list"
| InternalServerError

text \<open>
  The store is the default one of database.py, PostgreSQL through asyncpg. An \<open>Integer\<close>
  column, and a parameter compared with one or bound to \<open>LIMIT\<close> or \<open>OFFSET\<close>, is a
  32-bit signed integer there: the driver raises on a Python \<open>int\<close> outside that range.
\<close>

definition int32 :: "int \<Rightarrow> bool" where
  "int32 x = (- 2147483648 \<le> x \<and> x \<le> 2147483647)"

definition nullable_int32 :: "int option \<Rightarrow> bool" where
  "nullable_int32 c = (case c of None \<Rightarrow> True | Some x \<Rightarrow> int32 x)"

text \<open>
  \<open>db.get(Model, pk)\<close>: the row with that primary key, if any; the driver raises when
  the key is out of range.
\<close>

definition db_get_user :: "store \<Rightarrow> int \<Rightarrow> error + user option" where
  "db_get_user db pk =
     (if int32 pk then Inr (find (\<lambda>u. u_id u = pk) (users db)) else Inl InternalServerError)"

definition db_get_freight :: "store \<Rightarrow> int \<Rightarrow> error + freight option" where
  "db_get_freight db pk =
     (if int32 pk then Inr (find (\<lambda>f. f_id f = pk) (freights db)) else Inl InternalServerError)"

text \<open>\<open>id\<close> is the primary key of \<open>freight_searches\<close>: no two rows share it.\<close>

definition primary_key_ok :: "store \<Rightarrow> bool" where
  "primary_key_ok db = distinct (map fs_id (freight_searches db))"

text \<open>The \<open>id\<close> column is an \<open>Integer\<close>: every stored \<open>id\<close> is in its range.\<close>

definition ids_in_range :: "store \<Rightarrow> bool" where
  "ids_in_range db = list_all (\<lambda>s. int32 (fs_id s)) (freight_searches db)"

section \<open>SQL expressions: three-valued logic\<close>

text \<open>
  The conditions of \<open>find_matches\<close> are SQL expressions evaluated by the database, so
  they follow SQL's three-valued logic: a comparison with NULL is unknown (\<open>None\<close>),
  \<open>OR\<close> and \<open>AND\<close> are Kleene's, \<open>IS NULL\<close> is always known, and \<open>x IN (a, b)\<close> is
  \<open>x = a OR x = b\<close>. A \<open>WHERE\<close> clause keeps the rows whose condition is true.
\<close>

type_synonym sql_bool = "bool option"

definition sql_or :: "sql_bool \<Rightarrow> sql_bool \<Rightarrow> sql_bool" where
  "sql_or a b =
     (if a = Some True \<or> b = Some True then Some True
      else if a = Some False \<and> b = Some False then Some False
      else None)"

definition sql_and :: "sql_bool \<Rightarrow> sql_bool \<Rightarrow> sql_bool" where
  "sql_and a b =
     (if a = Some False \<or> b = Some False then Some False
      else if a = Some True \<and> b = Some True then Some True
      else None)"

definition sql_is_null :: "'a option \<Rightarrow> sql_bool" where
  "sql_is_null c = Some (c = None)"

definition sql_cmp :: "('a \<Rightarrow> 'a \<Rightarrow> bool) \<Rightarrow> 'a option \<Rightarrow> 'a option \<Rightarrow> sql_bool" where
  "sql_cmp rel a b =
     (case a of None \<Rightarrow> None
      | Some x \<Rightarrow> (case b of None \<Rightarrow> None | Some y \<Rightarrow> Some (rel x y)))"

fun sql_in :: "'a option \<Rightarrow> 'a option list \<Rightarrow> sql_bool" where
  "sql_in c [] = Some False"
| "sql_in c (v # vs) = sql_or (sql_cmp (=) c v) (sql_in c vs)"

text \<open>\<open>select(...).where(*conds)\<close>: the conditions are joined by \<open>AND\<close>.\<close>

definition sql_where :: "('r \<Rightarrow> sql_bool) list \<Rightarrow> 'r list \<Rightarrow> 'r list" where
  "sql_where conds rows =
     filter (\<lambda>r. foldr (\<lambda>c acc. sql_and (c r) acc) conds (Some True) = Some True) rows"

section \<open>find\_matches (server.py)\<close>

text \<open>The response headers the handler may set (their values before encoding).\<close>

record response =
  x_next_before_ts :: "datetime option"
  x_next_before_id :: "int option"

text \<open>
  The four groups of conditions, lines 147 to 165. \<open>column.in_([value, None])\<close> is the
  SQL expression \<open>column IN (value, NULL)\<close>; the freight's own columns are not
  nullable.
\<close>

definition route_conds :: "freight \<Rightarrow> (freight_search \<Rightarrow> sql_bool) list" where
  "route_conds freight_obj =
     [\<lambda>s. sql_in (fs_pickup_code s) [Some (f_pickup_code freight_obj), None],
      \<lambda>s. sql_in (fs_delivery_code s) [Some (f_delivery_code freight_obj), None]]"

definition price_conds :: "freight \<Rightarrow> (freight_search \<Rightarrow> sql_bool) list" where
  "price_conds freight_obj =
     [\<lambda>s. sql_or (sql_is_null (fs_min_price s))
                  (sql_cmp (\<le>) (fs_min_price s) (Some (f_price freight_obj))),
      \<lambda>s. sql_or (sql_is_null (fs_max_price s))
                  (sql_cmp (\<ge>) (fs_max_price s) (Some (f_price freight_obj)))]"

definition pickup_conds :: "freight \<Rightarrow> (freight_search \<Rightarrow> sql_bool) list" where
  "pickup_conds freight_obj =
     [\<lambda>s. sql_or (sql_is_null (fs_pickup_date_from s))
                  (sql_cmp (\<le>) (fs_pickup_date_from s) (Some (f_pickup_date freight_obj))),
      \<lambda>s. sql_or (sql_is_null (fs_pickup_date_to s))
                  (sql_cmp (\<ge>) (fs_pickup_date_to s) (Some (f_pickup_date freight_obj)))]"

definition delivery_conds :: "freight \<Rightarrow> (freight_search \<Rightarrow> sql_bool) list" where
  "delivery_conds freight_obj =
     [\<lambda>s. sql_or (sql_is_null (fs_delivery_date_from s))
                  (sql_cmp (\<le>) (fs_delivery_date_from s) (Some (f_delivery_date freight_obj))),
      \<lambda>s. sql_or (sql_is_null (fs_delivery_date_to s))
                  (sql_cmp (\<ge>) (fs_delivery_date_to s) (Some (f_delivery_date freight_obj)))]"

text \<open>The conditions built before the cursor is looked at (\<open>conds\<close>, line 167).\<close>

definition match_conds :: "freight \<Rightarrow> (freight_search \<Rightarrow> sql_bool) list" where
  "match_conds freight_obj =
     route_conds freight_obj @ price_conds freight_obj
       @ pickup_conds freight_obj @ delivery_conds freight_obj"

text \<open>The keyset condition; \<open>created_at\<close> and \<open>id\<close> are not nullable.\<close>

definition keyset_cond :: "datetime \<Rightarrow> int \<Rightarrow> freight_search \<Rightarrow> sql_bool" where
  "keyset_cond before_ts before_id s =
     sql_or (sql_cmp (<) (Some (fs_created_at s)) (Some before_ts))
            (sql_and (sql_cmp (=) (Some (fs_created_at s)) (Some before_ts))
                     (sql_cmp (<) (Some (fs_id s)) (Some before_id)))"

text \<open>
  \<open>ORDER BY created_at DESC, id DESC\<close>. Rows that agree on both columns would come in
  an order the database chooses; the primary key excludes them.
\<close>

definition keyset_key :: "freight_search \<Rightarrow> datetime \<times> int" where
  "keyset_key s = (fs_created_at s, fs_id s)"

definition order_by_desc :: "freight_search list \<Rightarrow> freight_search list" where
  "order_by_desc rows = rev (sort_key keyset_key rows)"

text \<open>
  The route handler. FastAPI checks the \<open>Query\<close> bounds of \<open>limit\<close> (\<open>ge=1, le=1000\<close>) and
  \<open>offset\<close> (\<open>ge=0\<close>) before the body runs and answers 422 when one fails; the list
  names the parameters that failed. \<open>LIMIT l OFFSET o\<close> skips \<open>o\<close> rows, then keeps \<open>l\<close>.
  The result is the returned rows and the response object with the headers the handler
  has set; \<open>rows[-1]\<close> is read only when \<open>len(rows) == limit\<close>, hence on a page that is
  not empty.
\<close>

definition query_errors :: "int \<Rightarrow> int \<Rightarrow> string list" where
  "query_errors limit offset =
     (if limit < 1 \<or> 1000 < limit then [''limit''] else [])
       @ (if offset < 0 then [''offset''] else [])"

text \<open>
  The \<open>Integer\<close> parameters of the query that come from the request: \<open>limit\<close>, \<open>offset\<close>
  and, when the keyset condition is part of the query, \<open>before_id\<close>. \<open>db.execute\<close> raises
  when one of them is out of range. (The freight's codes are parameters too; they were
  read from \<open>Integer\<close> columns.)
\<close>

definition query_params :: "int \<Rightarrow> int \<Rightarrow> datetime option \<Rightarrow> int option \<Rightarrow> int list" where
  "query_params limit offset before_ts before_id =
     [limit, offset]
       @ (case before_ts of
            None \<Rightarrow> []
          | Some ts \<Rightarrow> (case before_id of None \<Rightarrow> [] | Some bid \<Rightarrow> [bid]))"

definition find_matches ::
  "store \<Rightarrow> int \<Rightarrow> response option \<Rightarrow> int \<Rightarrow> int \<Rightarrow> datetime option \<Rightarrow> int option
     \<Rightarrow> error + (freight_search list \<times> response option)" where
  "find_matches db freight_id response limit offset before_ts before_id =
     (if query_errors limit offset \<noteq> [] then
        Inl (RequestValidationError (query_errors limit offset))
      else
        case db_get_freight db freight_id of
          Inl e \<Rightarrow> Inl e
        | Inr None \<Rightarrow> Inl (HTTPException 404 ''Freight not found'')
        | Inr (Some freight_obj) \<Rightarrow>
            let conds = match_conds freight_obj;
                conds = (case before_ts of
                           None \<Rightarrow> conds
                         | Some ts \<Rightarrow> (case before_id of
                                         None \<Rightarrow> conds
                                       | Some bid \<Rightarrow> conds @ [keyset_cond ts bid]));
                base = sql_where conds (freight_searches db);
                rows = take (nat limit) (drop (nat offset) (order_by_desc base));
                response = (case response of
                              None \<Rightarrow> None
                            | Some r \<Rightarrow>
                                if int (length rows) = limit then
                                  Some (r\<lparr>x_next_before_ts := Some (fs_created_at (last rows)),
                                          x_next_before_id := Some (fs_id (last rows))\<rparr>)
                                else Some r)
            in if list_all int32 (query_params limit offset before_ts before_id)
               then Inr (rows, response)
               else Inl InternalServerError)"


section \<open>A keyset paging session\<close>

text \<open>
  The client of the keyset mode: it asks for the first page with no cursor and, while
  the response carries the two cursor headers, asks for the next page with them. The
  fuel bounds the number of requests; \<open>None\<close> means the session has not ended within
  it. A fresh response object carries no cursor header.
\<close>

definition fresh_response :: response where
  "fresh_response = \<lparr>x_next_before_ts = None, x_next_before_id = None\<rparr>"

definition next_cursor :: "response option \<Rightarrow> (datetime \<times> int) option" where
  "next_cursor response =
     (case response of
        None \<Rightarrow> None
      | Some r \<Rightarrow> (case x_next_before_ts r of
                     None \<Rightarrow> None
                   | Some ts \<Rightarrow> (case x_next_before_id r of
                                   None \<Rightarrow> None
                                 | Some bid \<Rightarrow> Some (ts, bid))))"

fun paging_session ::
  "nat \<Rightarrow> store \<Rightarrow> int \<Rightarrow> int \<Rightarrow> (datetime \<times> int) option
     \<Rightarrow> (error + freight_search list) option" where
  "paging_session 0 db freight_id limit cursor = None"
| "paging_session (Suc fuel) db freight_id limit cursor =
     (case find_matches db freight_id (Some fresh_response) limit 0
             (map_option fst cursor) (map_option snd cursor) of
        Inl e \<Rightarrow> Some (Inl e)
      | Inr (rows, response) \<Rightarrow>
          (case next_cursor response of
             None \<Rightarrow> Some (Inr rows)
           | Some c \<Rightarrow>
               (case paging_session fuel db freight_id limit (Some c) of
                  None \<Rightarrow> None
                | Some (Inl e) \<Rightarrow> Some (Inl e)
                | Some (Inr rest) \<Rightarrow> Some (Inr (rows @ rest)))))"

section \<open>create\_freight\_search (server.py)\<close>

text \<open>The request body \<open>FreightSearchCreate\<close>.\<close>

record freight_search_create =
  sc_user_id :: int
  sc_min_price :: "real option"
  sc_max_price :: "real option"
  sc_pickup_code :: "int option"
  sc_delivery_code :: "int option"
  sc_pickup_date_from :: "date option"
  sc_pickup_date_to :: "date option"
  sc_delivery_date_from :: "date option"
  sc_delivery_date_to :: "date option"

text \<open>
  The three field validators. Each gets the value \<open>v\<close> of its field and, from
  \<open>info.data\<close>, the field validated before it; it raises \<open>ValueError\<close> or returns \<open>v\<close>.
\<close>

definition price_bounds :: "real option \<Rightarrow> real option \<Rightarrow> string + real option" where
  "price_bounds v min_v =
     (case v of
        None \<Rightarrow> Inr v
      | Some x \<Rightarrow> (case min_v of
                     None \<Rightarrow> Inr v
                   | Some m \<Rightarrow> if x < m then Inl ''max_price must be >= min_price''
                               else Inr v))"

definition pickup_window :: "date option \<Rightarrow> date option \<Rightarrow> string + date option" where
  "pickup_window v f =
     (case v of
        None \<Rightarrow> Inr v
      | Some x \<Rightarrow> (case f of
                     None \<Rightarrow> Inr v
                   | Some y \<Rightarrow> if x < y then Inl ''pickup_date_to must be >= pickup_date_from''
                               else Inr v))"

definition delivery_window :: "date option \<Rightarrow> date option \<Rightarrow> string + date option" where
  "delivery_window v f =
     (case v of
        None \<Rightarrow> Inr v
      | Some x \<Rightarrow> (case f of
                     None \<Rightarrow> Inr v
                   | Some y \<Rightarrow> if x < y then Inl ''delivery_date_to must be >= delivery_date_from''
                               else Inr v))"

text \<open>
  Validation of the body: the validators run in the order of the fields, and the
  messages of those that raise are collected.
\<close>

definition value_errors :: "(string + 'a) \<Rightarrow> string list" where
  "value_errors r = (case r of Inl msg \<Rightarrow> [msg] | Inr v \<Rightarrow> [])"

definition validation_errors :: "freight_search_create \<Rightarrow> string list" where
  "validation_errors search =
     value_errors (price_bounds (sc_max_price search) (sc_min_price search))
       @ value_errors (pickup_window (sc_pickup_date_to search) (sc_pickup_date_from search))
       @ value_errors (delivery_window (sc_delivery_date_to search)
                         (sc_delivery_date_from search))"

text \<open>
  The route handler. The body is validated before the handler runs. The database
  assigns the new row's \<open>id\<close> and \<open>created_at\<close>; they are parameters here. The insert
  is sent at \<open>commit\<close>, where the driver raises when \<open>pickup_code\<close> or \<open>delivery_code\<close>
  is out of the range of its \<open>Integer\<close> column, and nothing is stored. The result is the
  answer and the database after the request.
\<close>

definition create_freight_search ::
  "store \<Rightarrow> freight_search_create \<Rightarrow> int \<Rightarrow> datetime \<Rightarrow> (error + freight_search) \<times> store" where
  "create_freight_search db search new_id now =
     (if validation_errors search \<noteq> [] then
        (Inl (RequestValidationError (validation_errors search)), db)
      else
        case db_get_user db (sc_user_id search) of
          Inl e \<Rightarrow> (Inl e, db)
        | Inr None \<Rightarrow> (Inl (HTTPException 404 ''User not found''), db)
        | Inr (Some user) \<Rightarrow>
            let search_obj =
                  \<lparr>fs_id = new_id,
                   fs_user_id = sc_user_id search,
                   fs_min_price = sc_min_price search,
                   fs_max_price = sc_max_price search,
                   fs_pickup_code = sc_pickup_code search,
                   fs_delivery_code = sc_delivery_code search,
                   fs_pickup_date_from = sc_pickup_date_from search,
                   fs_pickup_date_to = sc_pickup_date_to search,
                   fs_delivery_date_from = sc_delivery_date_from search,
                   fs_delivery_date_to = sc_delivery_date_to search,
                   fs_created_at = now\<rparr>
            in if nullable_int32 (sc_pickup_code search)
                    \<and> nullable_int32 (sc_delivery_code search)
               then (Inr search_obj,
                     db\<lparr>freight_searches := freight_searches db @ [search_obj]\<rparr>)
               else (Inl InternalServerError, db))"

section \<open>Notions used to state the properties\<close>

text \<open>
  The match set of a freight: all rows the conditions of line 167 select, in the order
  of the query, before any cursor, \<open>LIMIT\<close> or \<open>OFFSET\<close>.
\<close>

definition match_set :: "store \<Rightarrow> freight \<Rightarrow> freight_search list" where
  "match_set db freight_obj =
     order_by_desc (sql_where (match_conds freight_obj) (freight_searches db))"

text \<open>
  The continuation predicate in the specification's words: the row is strictly before
  the cursor \<open>(ts, bid)\<close>.
\<close>

definition strictly_before :: "datetime \<Rightarrow> int \<Rightarrow> freight_search \<Rightarrow> bool" where
  "strictly_before ts bid s =
     (fs_created_at s < ts \<or> (fs_created_at s = ts \<and> fs_id s < bid))"

text \<open>Rows in strictly descending order of \<open>(created_at, id)\<close>, compared lexicographically.\<close>

definition strictly_descending :: "freight_search list \<Rightarrow> bool" where
  "strictly_descending rows = sorted_wrt (\<lambda>a b. keyset_key b < keyset_key a) rows"

text \<open>The rows a request pages through: the match set, cut at the cursor if there is one.\<close>

definition candidates ::
  "store \<Rightarrow> freight \<Rightarrow> datetime option \<Rightarrow> int option \<Rightarrow> freight_search list" where
  "candidates db freight_obj before_ts before_id =
     (case before_ts of
        None \<Rightarrow> match_set db freight_obj
      | Some ts \<Rightarrow> (case before_id of
                      None \<Rightarrow> match_set db freight_obj
                    | Some bid \<Rightarrow> filter (strictly_before ts bid) (match_set db freight_obj)))"

text \<open>
  The cross-field invariants of a search in the specification's words: an upper bound
  below its lower bound, both present, violates them.
\<close>

definition inverted :: "('a::linorder) option \<Rightarrow> 'a option \<Rightarrow> bool" where
  "inverted lo hi =
     (case lo of None \<Rightarrow> False | Some l \<Rightarrow> (case hi of None \<Rightarrow> False | Some h \<Rightarrow> h < l))"

definition invariant_violated :: "freight_search_create \<Rightarrow> bool" where
  "invariant_violated search =
     (inverted (sc_min_price search) (sc_max_price search)
      \<or> inverted (sc_pickup_date_from search) (sc_pickup_date_to search)
      \<or> inverted (sc_delivery_date_from search) (sc_delivery_date_to search))"

section \<open>Example data\<close>

text \<open>
  The freight and the searches A and B of the specification's scenario, a search with
  no constraint at all, and one whose lower price bound is the freight's price.
  Dates are day ordinals (2022-01-01 is day 738156).
\<close>

definition ex_user :: user where
  "ex_user = \<lparr>u_id = 1, u_name = ''Alice'', u_surname = ''Rossi'',
              u_email = ''alice.rossi@example.com''\<rparr>"

definition ex_freight :: freight where
  "ex_freight = \<lparr>f_id = 1, f_price = 300, f_pickup_code = 10100, f_delivery_code = 20100,
                 f_pickup_date = 738156, f_delivery_date = 738157\<rparr>"

definition unconstrained :: "int \<Rightarrow> datetime \<Rightarrow> freight_search" where
  "unconstrained i ts =
     \<lparr>fs_id = i, fs_user_id = 1, fs_min_price = None, fs_max_price = None,
      fs_pickup_code = None, fs_delivery_code = None,
      fs_pickup_date_from = None, fs_pickup_date_to = None,
      fs_delivery_date_from = None, fs_delivery_date_to = None, fs_created_at = ts\<rparr>"

definition on_route :: "int \<Rightarrow> datetime \<Rightarrow> freight_search" where
  "on_route i ts = (unconstrained i ts)\<lparr>fs_pickup_code := Some 10100,
                                         fs_delivery_code := Some 20100\<rparr>"

definition ex_search_a :: freight_search where
  "ex_search_a = (on_route 2 50)\<lparr>fs_min_price := Some 200, fs_max_price := Some 350\<rparr>"

definition ex_search_b :: freight_search where
  "ex_search_b = (unconstrained 1 40)\<lparr>fs_pickup_code := Some 99999\<rparr>"

definition ex_store :: store where
  "ex_store = \<lparr>users = [ex_user], freights = [ex_freight],
               freight_searches = [ex_search_b, ex_search_a]\<rparr>"

definition ex_store_unconstrained :: store where
  "ex_store_unconstrained =
     \<lparr>users = [ex_user], freights = [ex_freight], freight_searches = [unconstrained 1 40]\<rparr>"

definition ex_store_min_price :: store where
  "ex_store_min_price =
     \<lparr>users = [ex_user], freights = [ex_freight],
      freight_searches = [(unconstrained 1 40)\<lparr>fs_min_price := Some 300\<rparr>]\<rparr>"

definition ex_store_max_price :: store where
  "ex_store_max_price =
     \<lparr>users = [ex_user], freights = [ex_freight],
      freight_searches = [(unconstrained 1 40)\<lparr>fs_max_price := Some 300\<rparr>]\<rparr>"

text \<open>Five searches on the freight's route; two pairs share their timestamp.\<close>

definition ex_store_pages :: store where
  "ex_store_pages =
     \<lparr>users = [ex_user], freights = [ex_freight],
      freight_searches =
        [on_route 3 20, on_route 6 10, ex_search_b, on_route 5 30, on_route 2 10,
         on_route 4 20]\<rparr>"



section \<open>The WHERE clause\<close>

lemma all_conds_true:
  "(foldr (\<lambda>c acc. sql_and (c r) acc) conds (Some True) = Some True)
     = (\<forall>c\<in>set conds. c r = Some True)"
  by (induction conds) (auto simp: sql_and_def)

lemma sql_where_filter:
  "sql_where conds rows = filter (\<lambda>r. \<forall>c\<in>set conds. c r = Some True) rows"
  by (simp add: sql_where_def all_conds_true)

lemma sql_where_append:
  "sql_where (cs @ ds) rows = filter (\<lambda>r. \<forall>c\<in>set ds. c r = Some True) (sql_where cs rows)"
  by (auto simp: sql_where_filter intro: filter_cong)

text \<open>\<open>x IN (v, NULL)\<close> is true for \<open>x = v\<close> only: for a NULL \<open>x\<close> it is unknown.\<close>

lemma sql_in_value_or_null: "(sql_in c [Some v, None] = Some True) = (c = Some v)"
  by (cases c) (simp_all add: sql_or_def sql_cmp_def)

lemma null_or_bound:
  "(sql_or (sql_is_null c) (sql_cmp rel c (Some v)) = Some True)
     = (case c of None \<Rightarrow> True | Some x \<Rightarrow> rel x v)"
  by (cases c) (simp_all add: sql_or_def sql_cmp_def sql_is_null_def)

text \<open>What the conditions of line 167 select.\<close>

lemma match_conds_true:
  "(\<forall>c\<in>set (match_conds f). c s = Some True) =
     (fs_pickup_code s = Some (f_pickup_code f)
      \<and> fs_delivery_code s = Some (f_delivery_code f)
      \<and> (case fs_min_price s of None \<Rightarrow> True | Some x \<Rightarrow> x \<le> f_price f)
      \<and> (case fs_max_price s of None \<Rightarrow> True | Some x \<Rightarrow> f_price f \<le> x)
      \<and> (case fs_pickup_date_from s of None \<Rightarrow> True | Some x \<Rightarrow> x \<le> f_pickup_date f)
      \<and> (case fs_pickup_date_to s of None \<Rightarrow> True | Some x \<Rightarrow> f_pickup_date f \<le> x)
      \<and> (case fs_delivery_date_from s of None \<Rightarrow> True | Some x \<Rightarrow> x \<le> f_delivery_date f)
      \<and> (case fs_delivery_date_to s of None \<Rightarrow> True | Some x \<Rightarrow> f_delivery_date f \<le> x))"
  by (simp add: match_conds_def route_conds_def price_conds_def pickup_conds_def
        delivery_conds_def sql_in_value_or_null null_or_bound del: sql_in.simps)

lemma keyset_cond_before: "keyset_cond ts bid s = Some (strictly_before ts bid s)"
  by (simp add: keyset_cond_def strictly_before_def sql_or_def sql_and_def sql_cmp_def)

lemma strictly_before_key: "strictly_before ts bid s = (keyset_key s < (ts, bid))"
  by (auto simp: strictly_before_def keyset_key_def)

section \<open>The ordering\<close>

lemma order_by_desc_filter: "order_by_desc (filter P rows) = filter P (order_by_desc rows)"
  by (simp add: order_by_desc_def filter_sort [symmetric] rev_filter)

lemma set_order_by_desc: "set (order_by_desc rows) = set rows"
  by (simp add: order_by_desc_def)


lemma mset_order_by_desc: "mset (order_by_desc rows) = mset rows"
  by (simp add: order_by_desc_def)

lemma keyset_key_distinct: "distinct (map fs_id rows) \<Longrightarrow> distinct (map keyset_key rows)"
  by (induction rows) (auto simp: keyset_key_def)

lemma strictly_descending_order_by:
  assumes "distinct (map fs_id rows)"
  shows "strictly_descending (order_by_desc rows)"
proof -
  have "distinct (map keyset_key (sort_key keyset_key rows))"
    using keyset_key_distinct [OF assms] by (metis distinct_map distinct_sort set_sort)
  moreover have "sorted (map keyset_key (sort_key keyset_key rows))"
    by (rule sorted_sort_key)
  ultimately have "sorted_wrt (<) (map keyset_key (sort_key keyset_key rows))"
    by (simp add: strict_sorted_iff)
  then have "sorted_wrt (\<lambda>a b. keyset_key a < keyset_key b) (sort_key keyset_key rows)"
    by (simp add: sorted_wrt_map)
  then show ?thesis
    by (simp add: strictly_descending_def order_by_desc_def sorted_wrt_rev)
qed

lemma sql_where_keyset:
  "order_by_desc (sql_where (match_conds f @ [keyset_cond ts bid]) (freight_searches db))
     = filter (strictly_before ts bid) (match_set db f)"
  by (simp add: sql_where_append keyset_cond_before match_set_def order_by_desc_filter)

lemma in_match_set:
  "(s \<in> set (match_set db f))
     = (s \<in> set (freight_searches db) \<and> (\<forall>c\<in>set (match_conds f). c s = Some True))"
  by (simp add: match_set_def set_order_by_desc sql_where_filter)

lemma strictly_descending_match_set:
  assumes "primary_key_ok db"
  shows "strictly_descending (match_set db f)"
  unfolding match_set_def
  using assms
  by (intro strictly_descending_order_by) (simp add: primary_key_ok_def sql_where_filter distinct_map_filter)

lemma strictly_descending_distinct: "strictly_descending rows \<Longrightarrow> distinct rows"
  unfolding strictly_descending_def
  by (induction rows) auto

section \<open>The pages of find\_matches\<close>

lemma query_errors_Nil:
  "(query_errors limit offset = []) = (1 \<le> limit \<and> limit \<le> 1000 \<and> 0 \<le> offset)"
  by (auto simp: query_errors_def)

lemma find_matches_rows:
  assumes "query_errors limit offset = []" and "db_get_freight db fid = Inr (Some f)"
    and "list_all int32 (query_params limit offset bts bid)"
  shows "\<exists>resp. find_matches db fid response limit offset bts bid
           = Inr (take (nat limit) (drop (nat offset) (candidates db f bts bid)), resp)"
  using assms
  by (simp add: find_matches_def candidates_def sql_where_keyset Let_def
           match_set_def [symmetric] split: option.splits)


lemma db_get_freight_cases:
  "db_get_freight db fid = Inl e \<longleftrightarrow> \<not> int32 fid \<and> e = InternalServerError"
  by (auto simp: db_get_freight_def)

lemma db_get_user_cases:
  "db_get_user db uid = Inl e \<longleftrightarrow> \<not> int32 uid \<and> e = InternalServerError"
  by (auto simp: db_get_user_def)

lemma find_matches_headers:
  assumes "find_matches db fid (Some r) limit offset bts bid = Inr (rows, resp)"
  shows "resp = Some (if int (length rows) = limit
                      then r\<lparr>x_next_before_ts := Some (fs_created_at (last rows)),
                             x_next_before_id := Some (fs_id (last rows))\<rparr>
                      else r)"
  using assms
  by (auto simp: find_matches_def Let_def split: if_splits option.splits sum.splits)

lemma find_matches_Inr_valid:
  assumes "find_matches db fid response limit offset bts bid = Inr (rows, resp)"
  shows "query_errors limit offset = [] \<and> (\<exists>f. db_get_freight db fid = Inr (Some f))
         \<and> list_all int32 (query_params limit offset bts bid)"
  using assms
  by (auto simp: find_matches_def Let_def split: if_splits option.splits sum.splits)

lemma find_matches_page:
  assumes "find_matches db fid response limit offset bts bid = Inr (rows, resp)"
  obtains f where "db_get_freight db fid = Inr (Some f)"
    and "1 \<le> limit" and "limit \<le> 1000" and "0 \<le> offset"
    and "rows = take (nat limit) (drop (nat offset) (candidates db f bts bid))"
proof -
  from find_matches_Inr_valid [OF assms] obtain f
    where qe: "query_errors limit offset = []" and f: "db_get_freight db fid = Inr (Some f)"
      and qp: "list_all int32 (query_params limit offset bts bid)"
    by blast
  from find_matches_rows [OF qe f qp, of response] assms
  have "rows = take (nat limit) (drop (nat offset) (candidates db f bts bid))"
    by auto
  with qe f that show thesis
    by (simp add: query_errors_Nil)
qed

lemma next_cursor_page:
  assumes "find_matches db fid (Some fresh_response) limit offset bts bid = Inr (rows, resp)"
  shows "next_cursor resp
           = (if int (length rows) = limit then Some (keyset_key (last rows)) else None)"
  using find_matches_headers [OF assms]
  by (simp add: next_cursor_def fresh_response_def keyset_key_def)

section \<open>Evaluation on the example data\<close>

lemma ex_get_freight: "db_get_freight ex_store 1 = Inr (Some ex_freight)"
  "db_get_freight ex_store_pages 1 = Inr (Some ex_freight)"
  "db_get_freight ex_store_unconstrained 1 = Inr (Some ex_freight)"
  "db_get_freight ex_store_min_price 1 = Inr (Some ex_freight)"
  "db_get_freight ex_store_max_price 1 = Inr (Some ex_freight)"
  by (simp_all add: db_get_freight_def int32_def ex_store_def ex_store_pages_def
        ex_store_unconstrained_def ex_store_min_price_def ex_store_max_price_def ex_freight_def)

lemma ex_unconstrained_excluded:
  "\<not> (\<forall>c\<in>set (match_conds ex_freight). c (unconstrained i ts) = Some True)"
  "\<not> (\<forall>c\<in>set (match_conds ex_freight). c ((unconstrained i ts)\<lparr>fs_min_price := p\<rparr>) = Some True)"
  "\<not> (\<forall>c\<in>set (match_conds ex_freight). c ((unconstrained i ts)\<lparr>fs_max_price := p\<rparr>) = Some True)"
  by (simp_all only: match_conds_true) (simp_all add: unconstrained_def)

lemma ex_on_route_included:
  "\<forall>c\<in>set (match_conds ex_freight). c (on_route i ts) = Some True"
  by (simp only: match_conds_true) (simp add: on_route_def unconstrained_def ex_freight_def)

lemma ex_search_b_excluded:
  "\<not> (\<forall>c\<in>set (match_conds ex_freight). c ex_search_b = Some True)"
  by (simp only: match_conds_true) (simp add: ex_search_b_def unconstrained_def ex_freight_def)

lemma ex_search_a_included:
  "\<forall>c\<in>set (match_conds ex_freight). c ex_search_a = Some True"
  by (simp only: match_conds_true)
     (simp add: ex_search_a_def on_route_def unconstrained_def ex_freight_def)

lemma ex_match_set_unconstrained:
  "match_set ex_store_unconstrained ex_freight = []"
  "match_set ex_store_min_price ex_freight = []"
  "match_set ex_store_max_price ex_freight = []"
  by (simp_all add: match_set_def sql_where_filter ex_store_unconstrained_def
        ex_store_min_price_def ex_store_max_price_def ex_unconstrained_excluded
        order_by_desc_def)

lemma ex_primary_key: "primary_key_ok ex_store_pages" "ids_in_range ex_store_pages"
  by (simp_all add: primary_key_ok_def ids_in_range_def int32_def ex_store_pages_def
        on_route_def unconstrained_def ex_search_b_def)

lemma ex_keys: "keyset_key (on_route i ts) = (ts, i)" "keyset_key ex_search_a = (50, 2)"
  by (simp_all add: keyset_key_def on_route_def unconstrained_def ex_search_a_def)

lemma ex_match_set: "match_set ex_store ex_freight = [ex_search_a]"
  by (simp add: match_set_def sql_where_filter ex_store_def ex_search_a_included
        ex_search_b_excluded order_by_desc_def)

lemma ex_match_set_pages:
  "match_set ex_store_pages ex_freight
     = [on_route 5 30, on_route 4 20, on_route 3 20, on_route 6 10, on_route 2 10]"
  by (simp add: match_set_def sql_where_filter ex_store_pages_def ex_on_route_included
        ex_search_b_excluded order_by_desc_def ex_keys)

lemma ex_pages_first:
  "find_matches ex_store_pages 1 (Some fresh_response) 2 0 None None
     = Inr ([on_route 5 30, on_route 4 20],
            Some \<lparr>x_next_before_ts = Some 20, x_next_before_id = Some 4\<rparr>)"
  by (simp add: find_matches_def query_errors_def query_params_def int32_def
        ex_get_freight Let_def
        match_set_def [symmetric] ex_match_set_pages fresh_response_def)
     (simp add: on_route_def unconstrained_def)

lemma ex_pages_second:
  "find_matches ex_store_pages 1 (Some fresh_response) 2 0 (Some 20) (Some 4)
     = Inr ([on_route 3 20, on_route 6 10],
            Some \<lparr>x_next_before_ts = Some 10, x_next_before_id = Some 6\<rparr>)"
  by (simp add: find_matches_def query_errors_def query_params_def int32_def
        ex_get_freight Let_def sql_where_keyset ex_match_set_pages fresh_response_def strictly_before_key ex_keys)
     (simp add: on_route_def unconstrained_def)


lemma ex_scenario_first:
  "find_matches ex_store 1 (Some fresh_response) 1 0 None None
     = Inr ([ex_search_a], Some \<lparr>x_next_before_ts = Some 50, x_next_before_id = Some 2\<rparr>)"
  by (simp add: find_matches_def query_errors_def query_params_def int32_def
        ex_get_freight Let_def
        match_set_def [symmetric] ex_match_set fresh_response_def)
     (simp add: ex_search_a_def on_route_def unconstrained_def)

lemma ex_scenario_short:
  "find_matches ex_store 1 (Some fresh_response) 2 0 None None
     = Inr ([ex_search_a], Some fresh_response)"
  by (simp add: find_matches_def query_errors_def query_params_def int32_def
        ex_get_freight Let_def
        match_set_def [symmetric] ex_match_set)

section \<open>Matching\<close>

text \<open>
  A search that leaves the pickup code or the delivery code open is never selected:
  \<open>IN (value, NULL)\<close> is not true of a NULL column.
\<close>

lemma null_route_never_matched:
  assumes "fs_pickup_code s = None \<or> fs_delivery_code s = None"
  shows "s \<notin> set (match_set db f)"
  using assms by (auto simp: in_match_set match_conds_true)

text \<open>
  A stored search that names the freight's route and leaves price and dates open is
  selected, and so is one whose lower or upper price bound equals the freight's price.
\<close>

lemma on_route_matched:
  assumes "s \<in> set (freight_searches db)"
    and "fs_pickup_code s = Some (f_pickup_code f)"
    and "fs_delivery_code s = Some (f_delivery_code f)"
    and "fs_min_price s = None \<or> fs_min_price s = Some (f_price f)"
    and "fs_max_price s = None \<or> fs_max_price s = Some (f_price f)"
    and "fs_pickup_date_from s = None" and "fs_pickup_date_to s = None"
    and "fs_delivery_date_from s = None" and "fs_delivery_date_to s = None"
  shows "s \<in> set (match_set db f)"
  using assms by (auto simp: in_match_set match_conds_true)

text \<open>
  C1. The claim: a stored search whose eight optional fields are all null is in the
  match set of every freight. The code does not do this: in a store holding one freight
  and one such search, \<open>find_matches\<close> for that freight returns no row.
\<close>

theorem unconstrained_search_not_matched:
  "freight_searches ex_store_unconstrained = [unconstrained 1 40]
   \<and> find_matches ex_store_unconstrained 1 (Some fresh_response) 200 0 None None
       = Inr ([], Some fresh_response)"
  by (simp add: find_matches_def query_errors_def query_params_def int32_def
        ex_get_freight Let_def
        match_set_def [symmetric] ex_match_set_unconstrained)
     (simp add: ex_store_unconstrained_def)

text \<open>
  C8. The claim: a search whose only constraint is a lower (or an upper) price bound
  equal to the freight's price matches the freight. The code does not do this: such a
  search has no route codes, and \<open>find_matches\<close> returns no row for it.
\<close>

theorem price_boundary_search_not_matched:
  "freight_searches ex_store_min_price = [(unconstrained 1 40)\<lparr>fs_min_price := Some 300\<rparr>]
   \<and> freight_searches ex_store_max_price = [(unconstrained 1 40)\<lparr>fs_max_price := Some 300\<rparr>]
   \<and> f_price ex_freight = 300
   \<and> find_matches ex_store_min_price 1 (Some fresh_response) 200 0 None None
       = Inr ([], Some fresh_response)
   \<and> find_matches ex_store_max_price 1 (Some fresh_response) 200 0 None None
       = Inr ([], Some fresh_response)"
  by (simp add: find_matches_def query_errors_def query_params_def int32_def
        ex_get_freight Let_def
        match_set_def [symmetric] ex_match_set_unconstrained)
     (simp add: ex_store_min_price_def ex_store_max_price_def ex_freight_def)

section \<open>The keyset cursor\<close>

text \<open>
  C3. When both \<open>before_ts\<close> and \<open>before_id\<close> are given, every returned row is a stored
  row with \<open>created_at < before_ts\<close>, or \<open>created_at = before_ts\<close> and \<open>id < before_id\<close>.
\<close>

theorem cursor_rows_strictly_before:
  assumes "find_matches db fid response limit offset (Some ts) (Some bid) = Inr (rows, resp)"
    and "s \<in> set rows"
  shows "s \<in> set (freight_searches db)
         \<and> (fs_created_at s < ts \<or> (fs_created_at s = ts \<and> fs_id s < bid))"
proof -
  from assms(1) obtain f
    where "rows = take (nat limit) (drop (nat offset) (candidates db f (Some ts) (Some bid)))"
    by (rule find_matches_page)
  with assms(2) have "s \<in> set (filter (strictly_before ts bid) (match_set db f))"
    by (auto simp: candidates_def dest!: in_set_takeD in_set_dropD)
  then show ?thesis
    by (simp add: in_match_set strictly_before_def)
qed

theorem cursor_rows_strictly_before_witness:
  "find_matches ex_store_pages 1 (Some fresh_response) 2 0 (Some 20) (Some 4)
     = Inr ([on_route 3 20, on_route 6 10],
            Some \<lparr>x_next_before_ts = Some 10, x_next_before_id = Some 6\<rparr>)
   \<and> on_route 3 20 \<in> set [on_route 3 20, on_route 6 10]
   \<and> on_route 3 20 \<in> set (freight_searches ex_store_pages)
   \<and> (fs_created_at (on_route 3 20) < 20
       \<or> (fs_created_at (on_route 3 20) = 20 \<and> fs_id (on_route 3 20) < 4))"
  using cursor_rows_strictly_before [OF ex_pages_second, of "on_route 3 20"] ex_pages_second
  by simp

text \<open>
  C4. The handler writes the cursor headers exactly when the page holds \<open>limit\<close> rows,
  and then they are \<open>created_at\<close> and \<open>id\<close> of the page's last row; a page of fewer rows
  leaves the response as it was. (FastAPI passes a response object on every request.)
\<close>

theorem cursor_iff_full_page:
  assumes "find_matches db fid (Some r) limit offset bts bid = Inr (rows, resp)"
  shows "(int (length rows) = limit \<longrightarrow>
            rows \<noteq> []
            \<and> resp = Some (r\<lparr>x_next_before_ts := Some (fs_created_at (last rows)),
                            x_next_before_id := Some (fs_id (last rows))\<rparr>))
         \<and> (int (length rows) \<noteq> limit \<longrightarrow> int (length rows) < limit \<and> resp = Some r)"
proof -
  from assms obtain f where "1 \<le> limit"
    and "rows = take (nat limit) (drop (nat offset) (candidates db f bts bid))"
    by (rule find_matches_page)
  then have "int (length rows) \<le> limit" and "int (length rows) = limit \<longrightarrow> rows \<noteq> []"
    by auto
  with find_matches_headers [OF assms] show ?thesis
    by auto
qed

theorem cursor_iff_full_page_witness:
  "find_matches ex_store 1 (Some fresh_response) 1 0 None None
     = Inr ([ex_search_a], Some \<lparr>x_next_before_ts = Some 50, x_next_before_id = Some 2\<rparr>)
   \<and> int (length [ex_search_a]) = 1
   \<and> Some \<lparr>x_next_before_ts = Some 50, x_next_before_id = Some 2\<rparr>
       = Some (fresh_response\<lparr>x_next_before_ts := Some (fs_created_at (last [ex_search_a])),
                              x_next_before_id := Some (fs_id (last [ex_search_a]))\<rparr>)
   \<and> find_matches ex_store 1 (Some fresh_response) 2 0 None None
       = Inr ([ex_search_a], Some fresh_response)
   \<and> int (length [ex_search_a]) < 2"
  using cursor_iff_full_page [OF ex_scenario_first] cursor_iff_full_page [OF ex_scenario_short]
    ex_scenario_first ex_scenario_short
  by simp

text \<open>
  C9. A request that gives only one of \<open>before_ts\<close> and \<open>before_id\<close> is answered as the
  same request with neither.
\<close>

theorem lone_cursor_parameter_ignored:
  "find_matches db fid response limit offset (Some ts) None
     = find_matches db fid response limit offset None None
   \<and> find_matches db fid response limit offset None (Some bid)
     = find_matches db fid response limit offset None None"
  by (simp add: find_matches_def query_params_def Let_def split: option.splits sum.splits)




section \<open>Order of a page and successive pages\<close>

lemma strictly_descending_last:
  assumes "strictly_descending rows" and "x \<in> set rows"
  shows "keyset_key (last rows) \<le> keyset_key x"
  using assms unfolding strictly_descending_def
proof (induction rows)
  case Nil
  then show ?case by simp
next
  case (Cons a rows)
  show ?case
  proof (cases "rows = []")
    case True
    with Cons.prems show ?thesis by simp
  next
    case False
    then have "last rows \<in> set rows" by simp
    then have "keyset_key (last rows) < keyset_key a" using Cons.prems(1) by simp
    moreover have "x \<in> set rows \<Longrightarrow> keyset_key (last rows) \<le> keyset_key x"
      using Cons.IH Cons.prems(1) by simp
    ultimately show ?thesis using Cons.prems(2) False by auto
  qed
qed

lemma candidates_descending:
  assumes "primary_key_ok db"
  shows "strictly_descending (candidates db f bts bid)"
  using strictly_descending_match_set [OF assms, of f]
  by (simp add: candidates_def strictly_descending_def sorted_wrt_filter split: option.splits)

lemma page_descending:
  assumes "primary_key_ok db"
    and "find_matches db fid response limit offset bts bid = Inr (rows, resp)"
  shows "strictly_descending rows"
proof -
  from assms(2) obtain f
    where "rows = take (nat limit) (drop (nat offset) (candidates db f bts bid))"
    by (rule find_matches_page)
  with candidates_descending [OF assms(1), of f bts bid] show ?thesis
    by (simp add: strictly_descending_def)
qed

lemma page_before_cursor:
  assumes "find_matches db fid response limit offset (Some ts) (Some bid) = Inr (rows, resp)"
    and "s \<in> set rows"
  shows "keyset_key s < (ts, bid)"
proof -
  from assms(1) obtain f
    where "rows = take (nat limit) (drop (nat offset) (candidates db f (Some ts) (Some bid)))"
    by (rule find_matches_page)
  with assms(2) have "s \<in> set (filter (strictly_before ts bid) (match_set db f))"
    by (auto simp: candidates_def dest!: in_set_takeD in_set_dropD)
  then show ?thesis
    by (simp add: strictly_before_key)
qed

text \<open>
  C5. With the primary key in force, the rows of a page are in strictly descending
  order of \<open>(created_at, id)\<close>; and the page asked for with the cursor a page returned
  shares no row with that page (whatever was inserted in between: \<open>db'\<close> is the store
  at the second request).
\<close>

theorem pages_descending_and_disjoint:
  assumes "primary_key_ok db"
    and "find_matches db fid (Some fresh_response) limit offset bts bid = Inr (rows, resp)"
  shows "strictly_descending rows
         \<and> (\<forall>db' ts nid limit' offset' rows' resp'.
               next_cursor resp = Some (ts, nid)
               \<and> find_matches db' fid (Some fresh_response) limit' offset' (Some ts) (Some nid)
                   = Inr (rows', resp')
               \<longrightarrow> set rows \<inter> set rows' = {})"
proof (intro conjI allI impI)
  show desc: "strictly_descending rows"
    by (rule page_descending [OF assms])
  fix db' ts nid limit' offset' rows' resp'
  assume next_page: "next_cursor resp = Some (ts, nid)
    \<and> find_matches db' fid (Some fresh_response) limit' offset' (Some ts) (Some nid)
        = Inr (rows', resp')"
  then have cursor: "keyset_key (last rows) = (ts, nid)"
    using next_cursor_page [OF assms(2)] by (simp split: if_splits)
  show "set rows \<inter> set rows' = {}"
  proof (rule ccontr)
    assume "set rows \<inter> set rows' \<noteq> {}"
    then obtain s where s: "s \<in> set rows" "s \<in> set rows'" by auto
    from strictly_descending_last [OF desc s(1)] cursor
    have "(ts, nid) \<le> keyset_key s" by simp
    moreover from next_page s(2) have "keyset_key s < (ts, nid)"
      by (auto intro: page_before_cursor)
    ultimately show False by simp
  qed
qed

theorem pages_descending_and_disjoint_witness:
  "primary_key_ok ex_store_pages
   \<and> find_matches ex_store_pages 1 (Some fresh_response) 2 0 None None
       = Inr ([on_route 5 30, on_route 4 20],
              Some \<lparr>x_next_before_ts = Some 20, x_next_before_id = Some 4\<rparr>)
   \<and> next_cursor (Some \<lparr>x_next_before_ts = Some 20, x_next_before_id = Some 4\<rparr>) = Some (20, 4)
   \<and> find_matches ex_store_pages 1 (Some fresh_response) 2 0 (Some 20) (Some 4)
       = Inr ([on_route 3 20, on_route 6 10],
              Some \<lparr>x_next_before_ts = Some 10, x_next_before_id = Some 6\<rparr>)
   \<and> strictly_descending [on_route 5 30, on_route 4 20]
   \<and> set [on_route 5 30, on_route 4 20] \<inter> set [on_route 3 20, on_route 6 10] = {}"
proof -
  have pk: "primary_key_ok ex_store_pages"
    by (simp add: primary_key_ok_def ex_store_pages_def on_route_def unconstrained_def
          ex_search_b_def)
  have nc: "next_cursor (Some \<lparr>x_next_before_ts = Some 20, x_next_before_id = Some 4\<rparr>)
              = Some (20, 4)"
    by (simp add: next_cursor_def)
  from pages_descending_and_disjoint [OF pk ex_pages_first] nc ex_pages_second
  have "strictly_descending [on_route 5 30, on_route 4 20]
        \<and> set [on_route 5 30, on_route 4 20] \<inter> set [on_route 3 20, on_route 6 10] = {}"
    by blast
  with pk nc ex_pages_first ex_pages_second show ?thesis
    by simp
qed

section \<open>Completeness of a keyset paging session\<close>

lemma filter_below_nth:
  "sorted_wrt (\<lambda>a b. k b < (k a :: 'k :: linorder)) xs \<Longrightarrow> i < length xs
     \<Longrightarrow> filter (\<lambda>s. k s < k (xs ! i)) xs = drop (Suc i) xs"
proof (induction xs arbitrary: i)
  case Nil
  then show ?case by simp
next
  case (Cons x xs)
  show ?case
  proof (cases i)
    case 0
    have "filter (\<lambda>s. k s < k x) xs = xs"
      using Cons.prems(1) by (auto simp: filter_id_conv)
    then show ?thesis using 0 by simp
  next
    case (Suc j)
    have j: "j < length xs" using Cons.prems(2) Suc by simp
    then have "k (xs ! j) < k x" using Cons.prems(1) by auto
    then have "\<not> k x < k (xs ! j)" by simp
    moreover have "filter (\<lambda>s. k s < k (xs ! j)) xs = drop (Suc j) xs"
      using Cons.IH [OF _ j] Cons.prems(1) by simp
    ultimately show ?thesis using Suc by simp
  qed
qed

lemma candidates_cursor:
  "candidates db f (map_option fst (Some c)) (map_option snd (Some c))
     = filter (\<lambda>s. keyset_key s < c) (match_set db f)"
  by (cases c) (simp add: candidates_def strictly_before_key [abs_def])

lemma last_take_drop:
  assumes "0 < l" and "k + l \<le> length xs"
  shows "last (take l (drop k xs)) = xs ! (k + l - 1)"
proof -
  have len: "length (take l (drop k xs)) = l" using assms by simp
  then have "take l (drop k xs) \<noteq> []" using assms(1) by auto
  then have "last (take l (drop k xs)) = take l (drop k xs) ! (l - 1)"
    using len by (simp add: last_conv_nth)
  also have "\<dots> = drop k xs ! (l - 1)" using assms(1) by simp
  also have "\<dots> = xs ! (k + (l - 1))" using assms by simp
  finally show ?thesis using assms(1) by simp
qed

text \<open>
  The invariant of the session: the rows still to come are the match set without its
  first \<open>k\<close> rows, and the cursor's id is one the driver takes. One request returns the
  next \<open>limit\<close> of them, and its cursor cuts the match set just after them.
\<close>

lemma match_set_ids_in_range:
  assumes "ids_in_range db" and "s \<in> set (match_set db f)"
  shows "int32 (fs_id s)"
  using assms by (auto simp: ids_in_range_def in_match_set list_all_iff)

lemma paging_session_drop:
  assumes valid: "1 \<le> limit" "limit \<le> 1000"
      and f: "db_get_freight db fid = Inr (Some f)"
      and sd: "strictly_descending (match_set db f)"
      and ids: "ids_in_range db"
  shows "candidates db f (map_option fst cursor) (map_option snd cursor) = drop k (match_set db f)
         \<Longrightarrow> nullable_int32 (map_option snd cursor)
         \<Longrightarrow> length (match_set db f) - k < fuel
         \<Longrightarrow> paging_session fuel db fid limit cursor = Some (Inr (drop k (match_set db f)))"
proof (induction fuel arbitrary: k cursor)
  case 0
  then show ?case by simp
next
  case (Suc fuel)
  let ?M = "match_set db f"
  let ?l = "nat limit"
  let ?page = "take ?l (drop k ?M)"
  have l_pos: "0 < ?l" using valid by simp
  have qe: "query_errors limit 0 = []" using valid by (simp add: query_errors_Nil)
  have qp: "list_all int32 (query_params limit 0 (map_option fst cursor) (map_option snd cursor))"
    using valid Suc.prems(2)
    by (cases cursor) (simp_all add: query_params_def int32_def nullable_int32_def)
  obtain resp where fm:
    "find_matches db fid (Some fresh_response) limit 0 (map_option fst cursor) (map_option snd cursor)
       = Inr (?page, resp)"
    using find_matches_rows [OF qe f qp, of "Some fresh_response"] Suc.prems(1) by auto
  have nc: "next_cursor resp
              = (if int (length ?page) = limit then Some (keyset_key (last ?page)) else None)"
    by (rule next_cursor_page [OF fm])
  show ?case
  proof (cases "int (length ?page) = limit")
    case False
    then have "length ?M - k < ?l" using valid by (auto simp: min_def split: if_splits)
    then have "?page = drop k ?M" by simp
    with fm nc False show ?thesis by simp
  next
    case True
    then have "length ?page = ?l" by simp
    then have len: "k + ?l \<le> length ?M" using l_pos by (auto simp: min_def split: if_splits)
    have lastp: "last ?page = ?M ! (k + ?l - 1)"
      by (rule last_take_drop [OF l_pos len])
    have idx: "k + ?l - 1 < length ?M" using len l_pos by simp
    then have "last ?page \<in> set ?M" using lastp by simp
    then have "int32 (fs_id (last ?page))"
      by (rule match_set_ids_in_range [OF ids])
    then have id_ok: "nullable_int32 (map_option snd (Some (keyset_key (last ?page))))"
      by (simp add: nullable_int32_def keyset_key_def)
    have "filter (\<lambda>s. keyset_key s < keyset_key (?M ! (k + ?l - 1))) ?M
            = drop (Suc (k + ?l - 1)) ?M"
      using sd idx unfolding strictly_descending_def by (rule filter_below_nth)
    then have cand:
      "candidates db f (map_option fst (Some (keyset_key (last ?page))))
         (map_option snd (Some (keyset_key (last ?page)))) = drop (k + ?l) ?M"
      using l_pos by (simp only: candidates_cursor lastp) simp
    have "length ?M - (k + ?l) < fuel" using Suc.prems(3) l_pos len by simp
    from Suc.IH [OF cand id_ok this]
    have rest: "paging_session fuel db fid limit (Some (keyset_key (last ?page)))
                  = Some (Inr (drop (k + ?l) ?M))" .
    have "?page @ drop (k + ?l) ?M = drop k ?M"
      by (metis add.commute append_take_drop_id drop_drop)
    with fm nc True rest show ?thesis by simp
  qed
qed

text \<open>
  C2, as the code has it: for a store whose \<open>id\<close> column is a primary key of 32-bit
  values and an existing freight. For every limit from 1 to 1000, the session that
  starts without a cursor and follows the returned cursors ends (any fuel above the
  number of stored searches is enough) and its pages, one after the other, are the
  match set: every matching row once, none twice, none left out. For every limit above
  1000 the first request is refused with the validation error and the session returns
  no row.
\<close>

theorem keyset_session_complete:
  assumes "primary_key_ok db" and "ids_in_range db"
    and "db_get_freight db fid = Inr (Some f)"
    and "length (freight_searches db) < fuel"
  shows "(1 \<le> limit \<and> limit \<le> 1000 \<longrightarrow>
            paging_session fuel db fid limit None = Some (Inr (match_set db f))
            \<and> distinct (match_set db f)
            \<and> mset (match_set db f) = mset (sql_where (match_conds f) (freight_searches db)))
         \<and> (1000 < limit \<longrightarrow>
              paging_session fuel db fid limit None
                = Some (Inl (RequestValidationError [''limit''])))"
proof -
  have sd: "strictly_descending (match_set db f)"
    by (rule strictly_descending_match_set [OF assms(1)])
  have complete: "paging_session fuel db fid limit None = Some (Inr (match_set db f))"
    if "1 \<le> limit" and "limit \<le> 1000"
  proof -
    have "length (match_set db f) \<le> length (freight_searches db)"
      by (simp add: match_set_def order_by_desc_def sql_where_filter)
    then have fuel: "length (match_set db f) - 0 < fuel"
      using assms(4) by simp
    have start: "candidates db f (map_option fst None) (map_option snd None)
                   = drop 0 (match_set db f)"
      by (simp add: candidates_def)
    have none: "nullable_int32 (map_option snd None)"
      by (simp add: nullable_int32_def)
    from paging_session_drop [OF that assms(3) sd assms(2) start none fuel]
    show ?thesis by simp
  qed
  have refused: "paging_session fuel db fid limit None
                   = Some (Inl (RequestValidationError [''limit'']))"
    if "1000 < limit"
  proof -
    from assms(4) obtain n where "fuel = Suc n"
      by (cases fuel) simp_all
    with that show ?thesis
      by (simp add: find_matches_def query_errors_def)
  qed
  have "distinct (match_set db f)"
    by (rule strictly_descending_distinct [OF sd])
  moreover have "mset (match_set db f) = mset (sql_where (match_conds f) (freight_searches db))"
    by (simp add: match_set_def mset_order_by_desc)
  ultimately show ?thesis
    using complete refused by simp
qed

theorem keyset_session_complete_witness:
  "primary_key_ok ex_store_pages \<and> ids_in_range ex_store_pages
   \<and> db_get_freight ex_store_pages 1 = Inr (Some ex_freight)
   \<and> length (freight_searches ex_store_pages) < 7
   \<and> (1::int) \<le> 2 \<and> (2::int) \<le> 1000
   \<and> paging_session 7 ex_store_pages 1 2 None
       = Some (Inr [on_route 5 30, on_route 4 20, on_route 3 20, on_route 6 10, on_route 2 10])
   \<and> (1000::int) < 5000
   \<and> paging_session 7 ex_store_pages 1 5000 None
       = Some (Inl (RequestValidationError [''limit'']))"
proof -
  have len: "length (freight_searches ex_store_pages) < 7"
    by (simp add: ex_store_pages_def)
  from keyset_session_complete [OF ex_primary_key ex_get_freight(2) len, of 2]
       keyset_session_complete [OF ex_primary_key ex_get_freight(2) len, of 5000]
  have "paging_session 7 ex_store_pages 1 2 None
          = Some (Inr (match_set ex_store_pages ex_freight))
        \<and> paging_session 7 ex_store_pages 1 5000 None
          = Some (Inl (RequestValidationError [''limit'']))"
    by simp
  with len show ?thesis
    by (simp add: ex_primary_key ex_get_freight ex_match_set_pages)
qed

text \<open>
  A limit above 1000 is refused, so the session for \<open>limit = 1001\<close> ends with the
  validation error and returns none of the five matching rows.
\<close>

theorem keyset_session_limit_1001_counterexample:
  "primary_key_ok ex_store_pages \<and> db_get_freight ex_store_pages 1 = Inr (Some ex_freight)
   \<and> length (match_set ex_store_pages ex_freight) = 5
   \<and> paging_session 7 ex_store_pages 1 1001 None
       = Some (Inl (RequestValidationError [''limit'']))"
proof -
  have "paging_session 7 ex_store_pages 1 1001 None
          = Some (Inl (RequestValidationError [''limit'']))"
    by (simp add: eval_nat_numeral find_matches_def query_errors_def)
  then show ?thesis
    by (simp add: ex_primary_key ex_get_freight ex_match_set_pages)
qed

section \<open>Errors\<close>









text \<open>The validators raise exactly when a cross-field invariant is violated.\<close>

lemma validation_errors_Nil: "(validation_errors search = []) = (\<not> invariant_violated search)"
  by (auto simp: validation_errors_def invariant_violated_def inverted_def value_errors_def
        price_bounds_def pickup_window_def delivery_window_def split: option.splits)

lemma create_freight_search_success:
  assumes "\<not> invariant_violated search" and "db_get_user db (sc_user_id search) = Inr (Some u)"
    and "nullable_int32 (sc_pickup_code search)" and "nullable_int32 (sc_delivery_code search)"
  shows "\<exists>row. create_freight_search db search new_id now
           = (Inr row, db\<lparr>freight_searches := freight_searches db @ [row]\<rparr>)
         \<and> fs_id row = new_id \<and> fs_created_at row = now"
  using assms by (simp add: create_freight_search_def validation_errors_Nil Let_def)






end
